theory Spec2Isabelle
  imports Main
begin

section \<open>Python values, exceptions and objects\<close>

text \<open>
  The file under verification is
  \<^verbatim>\<open>components/esp_driver_parlio/test_apps/parlio/pytest_parlio_unity.py\<close>:
  five bare pytest markers, one \<^verbatim>\<open>parametrize\<close> marker and the function
  \<^verbatim>\<open>
  def test_parlio(dut: Dut) -> None:
      dut.run_all_single_board_cases()
  \<close>
  The plain values that occur in the file are strings, a list of strings and a boolean;
  \<open>None\<close> is what a function returns when control falls off its end.
\<close>

datatype pyval = PyNone | PyBool bool | PyStr string | PyList "pyval list"

text \<open>An exception: its class name and its argument.\<close>

datatype pyexc = PyExc string string

text \<open>
  A method takes positional arguments, keyword arguments and the state of the world
  (the device, the serial port, module globals: everything it may read or write), and
  either raises or returns a value, leaving a new state of the world.
\<close>

type_synonym 'w pymethod = "pyval list \<Rightarrow> (string \<times> pyval) list \<Rightarrow> 'w \<Rightarrow> (pyexc + pyval) \<times> 'w"

datatype 'w attr = Method "'w pymethod" | Data pyval

text \<open>
  Python is dynamically typed: the annotation \<^verbatim>\<open>dut: Dut\<close> is not enforced, so the
  argument is any object. An instance is its attribute table; a plain value (\<open>None\<close>, a
  boolean, a string, a list) has no attribute of the name this file looks up.
\<close>

datatype 'w pyobj = Instance "string \<rightharpoonup> 'w attr" | Plain pyval

text \<open>One call made by a frame: the method's name and the arguments passed.\<close>

datatype call = Call string "pyval list" "(string \<times> pyval) list"

text \<open>
  What running a piece of code gives: the exception raised or the value produced, the
  world afterwards, and the calls the code itself made, in order.
\<close>

record ('w, 'a) result =
  outcome :: "pyexc + 'a"
  world :: 'w
  calls :: "call list"

type_synonym ('w, 'a) py = "'w \<Rightarrow> ('w, 'a) result"

definition py_return :: "'a \<Rightarrow> ('w, 'a) py" where
  "py_return v = (\<lambda>w. \<lparr>outcome = Inr v, world = w, calls = []\<rparr>)"

definition py_raise :: "pyexc \<Rightarrow> ('w, 'a) py" where
  "py_raise e = (\<lambda>w. \<lparr>outcome = Inl e, world = w, calls = []\<rparr>)"

text \<open>
  Sequencing. No \<^verbatim>\<open>try\<close> stands in the file, so an exception of the first part
  ends the whole: the second part does not run.
\<close>

definition py_bind :: "('w, 'a) py \<Rightarrow> ('a \<Rightarrow> ('w, 'b) py) \<Rightarrow> ('w, 'b) py" where
  "py_bind m f = (\<lambda>w.
     let r = m w in
     case outcome r of
       Inl e \<Rightarrow> \<lparr>outcome = Inl e, world = world r, calls = calls r\<rparr>
     | Inr a \<Rightarrow>
         let r' = f a (world r) in
         \<lparr>outcome = outcome r', world = world r', calls = calls r @ calls r'\<rparr>)"

text \<open>Attribute lookup \<^verbatim>\<open>obj.name\<close>: \<^verbatim>\<open>AttributeError\<close> when the object has none.\<close>

definition py_getattr :: "'w pyobj \<Rightarrow> string \<Rightarrow> ('w, 'w attr) py" where
  "py_getattr obj name =
     (case obj of
        Plain v \<Rightarrow> py_raise (PyExc ''AttributeError'' name)
      | Instance tab \<Rightarrow>
          (case tab name of
             None \<Rightarrow> py_raise (PyExc ''AttributeError'' name)
           | Some a \<Rightarrow> py_return a))"

text \<open>
  The call \<^verbatim>\<open>f(*args, **kwargs)\<close> of an attribute found under \<open>name\<close>: a bound method
  runs on the world and the call is recorded; anything else is not callable.
\<close>

definition py_call :: "string \<Rightarrow> 'w attr \<Rightarrow> pyval list \<Rightarrow> (string \<times> pyval) list \<Rightarrow> ('w, pyval) py" where
  "py_call name a args kwargs =
     (case a of
        Data v \<Rightarrow> py_raise (PyExc ''TypeError'' name)
      | Method m \<Rightarrow> (\<lambda>w.
          case m args kwargs w of
            (r, w') \<Rightarrow> \<lparr>outcome = r, world = w', calls = [Call name args kwargs]\<rparr>))"

text \<open>The expression \<^verbatim>\<open>obj.name(*args, **kwargs)\<close>.\<close>

definition method_call :: "'w pyobj \<Rightarrow> string \<Rightarrow> pyval list \<Rightarrow> (string \<times> pyval) list \<Rightarrow> ('w, pyval) py" where
  "method_call obj name args kwargs =
     py_bind (py_getattr obj name) (\<lambda>a. py_call name a args kwargs)"

text \<open>An expression statement evaluates the expression and drops its value.\<close>

definition expr_stmt :: "('w, pyval) py \<Rightarrow> ('w, unit) py" where
  "expr_stmt e = py_bind e (\<lambda>_. py_return ())"

text \<open>A block runs its statements in order.\<close>

fun py_block :: "('w, unit) py list \<Rightarrow> ('w, unit) py" where
  "py_block [] = py_return ()"
| "py_block (s # ss) = py_bind s (\<lambda>_. py_block ss)"

text \<open>
  A function body with no \<^verbatim>\<open>return\<close> statement: the block runs, and falling off
  its end returns \<open>None\<close>.
\<close>

definition py_def :: "('w, unit) py list \<Rightarrow> ('w, pyval) py" where
  "py_def body = py_bind (py_block body) (\<lambda>_. py_return PyNone)"

section \<open>The test function\<close>

text \<open>
  \<^verbatim>\<open>
  def test_parlio(dut: Dut) -> None:
      dut.run_all_single_board_cases()
  \<close>
\<close>

definition test_parlio :: "'w pyobj \<Rightarrow> ('w, pyval) py" where
  "test_parlio dut =
     py_def [expr_stmt (method_call dut ''run_all_single_board_cases'' [] [])]"

section \<open>The declaration: decorators and signature\<close>

text \<open>
  A decorator of the file is either a bare marker \<^verbatim>\<open>@pytest.mark.NAME\<close> or a marker
  called with arguments \<^verbatim>\<open>@pytest.mark.NAME(args, kwargs)\<close>.
\<close>

datatype decorator = Mark string | MarkCall string "pyval list" "(string \<times> pyval) list"

text \<open>
  A function definition as the file writes it: the decorators from top to bottom, the
  parameters with their annotations, and the annotation of the result.
\<close>

record funcdef =
  fn_name :: string
  fn_decorators :: "decorator list"
  fn_params :: "(string \<times> string) list"
  fn_returns :: string

text \<open>
  \<^verbatim>\<open>
  @pytest.mark.esp32c5
  @pytest.mark.esp32c6
  @pytest.mark.esp32h2
  @pytest.mark.esp32p4
  @pytest.mark.generic
  @pytest.mark.parametrize(
      'config',
      [
          'cache_safe',
          'release',
      ],
      indirect=True,
  )
  def test_parlio(dut: Dut) -> None:
  \<close>
\<close>

definition test_parlio_def :: funcdef where
  "test_parlio_def =
     \<lparr>fn_name = ''test_parlio'',
      fn_decorators =
        [Mark ''esp32c5'',
         Mark ''esp32c6'',
         Mark ''esp32h2'',
         Mark ''esp32p4'',
         Mark ''generic'',
         MarkCall ''parametrize''
           [PyStr ''config'', PyList [PyStr ''cache_safe'', PyStr ''release'']]
           [(''indirect'', PyBool True)]],
      fn_params = [(''dut'', ''Dut'')],
      fn_returns = ''None''\<rparr>"



text \<open>
  A \<^verbatim>\<open>parametrize(argname, argvalues, indirect=...)\<close> marker: the argument name, the
  values, and whether they are routed to the fixture of that name (\<^verbatim>\<open>indirect=True\<close>)
  instead of being passed to the function (the default).
\<close>

record parametrization =
  p_argname :: string
  p_values :: "pyval list"
  p_indirect :: bool

fun parametrize_of :: "decorator \<Rightarrow> parametrization option" where
  "parametrize_of (MarkCall n [PyStr a, PyList vs] kwargs) =
     (if n = ''parametrize''
      then Some \<lparr>p_argname = a, p_values = vs,
                 p_indirect = (map_of kwargs ''indirect'' = Some (PyBool True))\<rparr>
      else None)"
| "parametrize_of _ = None"

definition parametrizations :: "funcdef \<Rightarrow> parametrization list" where
  "parametrizations d = List.map_filter parametrize_of (fn_decorators d)"

text \<open>The values a definition lists for one argument name.\<close>

definition param_values :: "funcdef \<Rightarrow> string \<Rightarrow> pyval list" where
  "param_values d a =
     concat (map p_values (filter (\<lambda>p. p_argname p = a) (parametrizations d)))"

text \<open>
  One collected test case (pytest's call spec): the indirect parameters, delivered to
  fixtures as \<^verbatim>\<open>request.param\<close>, and the direct ones, passed to the function.
\<close>

record callspec =
  cs_params :: "(string \<times> pyval) list"
  cs_funcargs :: "(string \<times> pyval) list"

definition setparam :: "parametrization \<Rightarrow> callspec \<Rightarrow> pyval \<Rightarrow> callspec" where
  "setparam p cs v =
     (if p_indirect p
      then cs\<lparr>cs_params := cs_params cs @ [(p_argname p, v)]\<rparr>
      else cs\<lparr>cs_funcargs := cs_funcargs cs @ [(p_argname p, v)]\<rparr>)"

text \<open>
  Collection: pytest applies the \<^verbatim>\<open>parametrize\<close> markers from the one nearest the
  function outwards; each multiplies the cases collected so far by its values, in the
  order the values are listed.
\<close>

definition parametrize_step :: "callspec list \<Rightarrow> parametrization \<Rightarrow> callspec list" where
  "parametrize_step css p = concat (map (\<lambda>cs. map (setparam p cs) (p_values p)) css)"

definition collect :: "funcdef \<Rightarrow> callspec list" where
  "collect d =
     foldl parametrize_step [\<lparr>cs_params = [], cs_funcargs = []\<rparr>] (rev (parametrizations d))"

section \<open>How pytest calls the function\<close>





section \<open>Devices to evaluate at\<close>

text \<open>
  Two devices over a world that is a pair of a module-global counter and a device
  counter: the method of the first runs its cases and returns a value, the method of
  the second fails with an assertion error. Both touch the device counter only.
\<close>

definition passing_dut :: "(nat \<times> nat) pyobj" where
  "passing_dut = Instance [''run_all_single_board_cases'' \<mapsto>
     Method (\<lambda>args kwargs (g, n). (Inr (PyStr ''done''), (g, Suc n)))]"

definition failing_dut :: "(nat \<times> nat) pyobj" where
  "failing_dut = Instance [''run_all_single_board_cases'' \<mapsto>
     Method (\<lambda>args kwargs (g, n). (Inl (PyExc ''AssertionError'' ''case failed''), (g, Suc n)))]"

section \<open>What the function computes\<close>

lemma test_parlio_Plain:
  "test_parlio (Plain v) w =
     \<lparr>outcome = Inl (PyExc ''AttributeError'' ''run_all_single_board_cases''),
      world = w, calls = []\<rparr>"
  by (simp add: test_parlio_def py_def_def expr_stmt_def method_call_def py_getattr_def
      py_bind_def py_raise_def py_return_def)

lemma test_parlio_missing:
  "tab ''run_all_single_board_cases'' = None \<Longrightarrow>
   test_parlio (Instance tab) w =
     \<lparr>outcome = Inl (PyExc ''AttributeError'' ''run_all_single_board_cases''),
      world = w, calls = []\<rparr>"
  by (simp add: test_parlio_def py_def_def expr_stmt_def method_call_def py_getattr_def
      py_bind_def py_raise_def py_return_def)

lemma test_parlio_Data:
  "tab ''run_all_single_board_cases'' = Some (Data v) \<Longrightarrow>
   test_parlio (Instance tab) w =
     \<lparr>outcome = Inl (PyExc ''TypeError'' ''run_all_single_board_cases''),
      world = w, calls = []\<rparr>"
  by (simp add: test_parlio_def py_def_def expr_stmt_def method_call_def py_getattr_def
      py_call_def py_bind_def py_raise_def py_return_def)

lemma test_parlio_Method:
  "tab ''run_all_single_board_cases'' = Some (Method m) \<Longrightarrow>
   test_parlio (Instance tab) w =
     \<lparr>outcome = (case fst (m [] [] w) of Inl e \<Rightarrow> Inl e | Inr v \<Rightarrow> Inr PyNone),
      world = snd (m [] [] w),
      calls = [Call ''run_all_single_board_cases'' [] []]\<rparr>"
  by (simp add: test_parlio_def py_def_def expr_stmt_def method_call_def py_getattr_def
      py_call_def py_bind_def py_raise_def py_return_def Let_def
      split: prod.splits sum.splits)

lemma passing_dut_run:
  "test_parlio passing_dut (g, n) =
     \<lparr>outcome = Inr PyNone, world = (g, Suc n),
      calls = [Call ''run_all_single_board_cases'' [] []]\<rparr>"
  by (simp add: passing_dut_def test_parlio_Method)

lemma failing_dut_run:
  "test_parlio failing_dut (g, n) =
     \<lparr>outcome = Inl (PyExc ''AssertionError'' ''case failed''), world = (g, Suc n),
      calls = [Call ''run_all_single_board_cases'' [] []]\<rparr>"
  by (simp add: failing_dut_def test_parlio_Method)

text \<open>
  C1. For every device object, that is an object that provides the method
  \<^verbatim>\<open>run_all_single_board_cases\<close>, the function performs exactly one operation: the
  call of that method with no positional and no keyword argument. The world it leaves
  is the one the method left, it raises what the method raised, and it returns \<open>None\<close>
  when the method returned, whatever value the method returned.
\<close>

theorem test_parlio_single_call:
  assumes "dut = Instance tab"
    and "tab ''run_all_single_board_cases'' = Some (Method m)"
  shows "calls (test_parlio dut w) = [Call ''run_all_single_board_cases'' [] []]
    \<and> world (test_parlio dut w) = snd (m [] [] w)
    \<and> outcome (test_parlio dut w) =
        (case fst (m [] [] w) of Inl e \<Rightarrow> Inl e | Inr v \<Rightarrow> Inr PyNone)"
  using assms by (simp add: test_parlio_Method)

theorem test_parlio_single_call_witness:
  "calls (test_parlio passing_dut (0, 0)) = [Call ''run_all_single_board_cases'' [] []]
   \<and> world (test_parlio passing_dut (0, 0)) = (0, 1)
   \<and> outcome (test_parlio passing_dut (0, 0)) = Inr PyNone"
  using test_parlio_single_call [OF passing_dut_def, of
      "\<lambda>args kwargs (g, n). (Inr (PyStr ''done''), (g, Suc n))" "(0, 0)"]
  by simp

section \<open>The markers\<close>


section \<open>The configuration axis\<close>

lemma parametrizations_test_parlio:
  "parametrizations test_parlio_def =
     [\<lparr>p_argname = ''config'', p_values = [PyStr ''cache_safe'', PyStr ''release''],
       p_indirect = True\<rparr>]"
  by (simp add: parametrizations_def test_parlio_def_def)

lemma collect_test_parlio:
  "collect test_parlio_def =
     [\<lparr>cs_params = [(''config'', PyStr ''cache_safe'')], cs_funcargs = []\<rparr>,
      \<lparr>cs_params = [(''config'', PyStr ''release'')], cs_funcargs = []\<rparr>]"
  by (simp add: collect_def parametrizations_test_parlio parametrize_step_def setparam_def)

text \<open>
  C3. The declaration has one parametrization, of the argument \<^verbatim>\<open>config\<close>; its value list
  has exactly two entries, and two cases are collected.
\<close>

theorem config_axis_two_values:
  "length (param_values test_parlio_def ''config'') = 2
   \<and> map p_argname (parametrizations test_parlio_def) = [''config'']
   \<and> length (collect test_parlio_def) = 2"
  by (simp add: param_values_def parametrizations_test_parlio collect_test_parlio)

section \<open>Exceptions and effects\<close>

lemma test_parlio_body:
  "outcome (test_parlio dut w) =
     (case outcome (method_call dut ''run_all_single_board_cases'' [] [] w) of
        Inl e \<Rightarrow> Inl e | Inr v \<Rightarrow> Inr PyNone)
   \<and> world (test_parlio dut w) =
       world (method_call dut ''run_all_single_board_cases'' [] [] w)
   \<and> calls (test_parlio dut w) =
       calls (method_call dut ''run_all_single_board_cases'' [] [] w)"
  by (simp add: test_parlio_def py_def_def expr_stmt_def py_bind_def py_return_def Let_def
      split: sum.splits)

text \<open>
  C4. The function raises an exception exactly when the evaluation of its one
  statement raises it (the attribute lookup, the call, or the method itself): nothing
  is caught and nothing is added. In particular, what the method
  \<^verbatim>\<open>run_all_single_board_cases\<close> raises comes out of the function.
\<close>

theorem exceptions_propagate:
  "(outcome (test_parlio dut w) = Inl e
      \<longleftrightarrow> outcome (method_call dut ''run_all_single_board_cases'' [] [] w) = Inl e)
   \<and> (dut = Instance tab \<and> tab ''run_all_single_board_cases'' = Some (Method m)
        \<and> fst (m [] [] w) = Inl e'
      \<longrightarrow> outcome (test_parlio dut w) = Inl e')"
proof -
  have a: "outcome (test_parlio dut w) = Inl e
      \<longleftrightarrow> outcome (method_call dut ''run_all_single_board_cases'' [] [] w) = Inl e"
    by (simp add: test_parlio_body split: sum.splits)
  have b: "dut = Instance tab \<and> tab ''run_all_single_board_cases'' = Some (Method m)
        \<and> fst (m [] [] w) = Inl e'
      \<longrightarrow> outcome (test_parlio dut w) = Inl e'"
    by (simp add: test_parlio_Method)
  from a b show ?thesis by simp
qed

theorem exceptions_propagate_witness:
  "fst ((\<lambda>args kwargs (g, n). (Inl (PyExc ''AssertionError'' ''case failed''), (g, Suc n)))
         [] [] (0::nat, 0::nat)) = (Inl (PyExc ''AssertionError'' ''case failed'') :: pyexc + pyval)
   \<and> outcome (test_parlio failing_dut (0, 0)) = Inl (PyExc ''AssertionError'' ''case failed'')"
  using exceptions_propagate [of failing_dut "(0, 0)" "PyExc ''AssertionError'' ''case failed''"
      "[''run_all_single_board_cases'' \<mapsto>
         Method (\<lambda>args kwargs (g, n). (Inl (PyExc ''AssertionError'' ''case failed''), (g, Suc n)))]"
      "\<lambda>args kwargs (g, n). (Inl (PyExc ''AssertionError'' ''case failed''), (g, Suc n))"
      "PyExc ''AssertionError'' ''case failed''"]
  by (simp add: failing_dut_def)

text \<open>
  C5. The function has no effect of its own. The world it leaves is the world the
  method left, or the world it started in when no method ran; it makes at most the one
  call; and every part \<open>f\<close> of the world (module globals, say) that the method leaves
  as it was is left as it was by the function.
\<close>

theorem no_effect_beyond_the_call:
  assumes "\<forall>tab m. dut = Instance tab
             \<longrightarrow> tab ''run_all_single_board_cases'' = Some (Method m)
             \<longrightarrow> f (snd (m [] [] w)) = f w"
  shows "f (world (test_parlio dut w)) = f w
    \<and> length (calls (test_parlio dut w)) \<le> 1
    \<and> world (test_parlio dut w) =
        (case dut of
           Plain v \<Rightarrow> w
         | Instance tab \<Rightarrow>
             (case tab ''run_all_single_board_cases'' of
                Some (Method m) \<Rightarrow> snd (m [] [] w)
              | _ \<Rightarrow> w))"
proof (cases dut)
  case (Plain v)
  then show ?thesis by (simp add: test_parlio_Plain)
next
  case (Instance tab)
  show ?thesis
  proof (cases "tab ''run_all_single_board_cases''")
    case None
    with Instance show ?thesis by (simp add: test_parlio_missing)
  next
    case (Some a)
    show ?thesis
    proof (cases a)
      case (Data x)
      with Instance Some show ?thesis by (simp add: test_parlio_Data)
    next
      case (Method m)
      with Instance Some assms show ?thesis by (simp add: test_parlio_Method)
    qed
  qed
qed

theorem no_effect_beyond_the_call_witness:
  "fst (world (test_parlio passing_dut (7, 0))) = fst (7::nat, 0::nat)
   \<and> world (test_parlio passing_dut (7, 0)) = (7, 1)
   \<and> length (calls (test_parlio passing_dut (7, 0))) \<le> 1"
  using no_effect_beyond_the_call [of passing_dut fst "(7, 0)"]
  by (simp add: passing_dut_def)

section \<open>The configuration and the function\<close>




section \<open>The signature and the declaration order\<close>

text \<open>
  C7. The function has exactly one parameter, \<^verbatim>\<open>dut\<close>, annotated \<^verbatim>\<open>Dut\<close>; its declared
  result is \<^verbatim>\<open>None\<close>; and a call that completes normally returns \<open>None\<close>.
\<close>

theorem signature_one_parameter_returns_None:
  "fn_params test_parlio_def = [(''dut'', ''Dut'')]
   \<and> length (fn_params test_parlio_def) = 1
   \<and> fn_returns test_parlio_def = ''None''
   \<and> (outcome (test_parlio dut w) = Inr v \<longrightarrow> v = PyNone)"
proof -
  have "outcome (test_parlio dut w) = Inr v \<longrightarrow> v = PyNone"
    by (simp add: test_parlio_body split: sum.splits)
  then show ?thesis by (simp add: test_parlio_def_def)
qed

theorem signature_one_parameter_returns_None_witness:
  "fn_params test_parlio_def = [(''dut'', ''Dut'')]
   \<and> fn_returns test_parlio_def = ''None''
   \<and> outcome (test_parlio passing_dut (0, 0)) = Inr PyNone"
  using signature_one_parameter_returns_None [of passing_dut "(0, 0)" PyNone]
  by (simp add: passing_dut_run)

text \<open>
  C8. The values of the configuration axis are the strings \<^verbatim>\<open>cache_safe\<close> and
  \<^verbatim>\<open>release\<close>, in that order, and the cases are collected in that order.
\<close>

theorem config_values_in_order:
  "param_values test_parlio_def ''config'' = [PyStr ''cache_safe'', PyStr ''release'']
   \<and> map cs_params (collect test_parlio_def) =
       [[(''config'', PyStr ''cache_safe'')], [(''config'', PyStr ''release'')]]"
  by (simp add: param_values_def parametrizations_test_parlio collect_test_parlio)


end
